theory Spec2Isabelle
  imports Complex_Main
begin

section \<open>The live page\<close>

text \<open>
  The player and the recorder are content scripts: everything they compute is read off
  the page they run in. A live element is an object reference; the model names it by a
  number. JavaScript numbers are modelled as reals.
\<close>

type_synonym element = nat

datatype js_error = SyntaxError | TypeError | InvalidStateError

record rect =
  rect_left :: real
  rect_top :: real
  rect_width :: real
  rect_height :: real

text \<open>
  \<open>querySelectorAll page s\<close> lists the elements matching selector \<open>s\<close> in document
  order; \<open>None\<close> stands for a string that is not a valid selector, on which the DOM
  call throws a SyntaxError. \<open>is_file_input page e\<close> says that \<open>e\<close> is an
  \<open>input\<close> element of type \<open>file\<close>. The page is an HTML document with a body.
\<close>

record page =
  querySelectorAll :: "string \<Rightarrow> element list option"
  getBoundingClientRect :: "element \<Rightarrow> rect"
  getAttribute :: "element \<Rightarrow> string \<Rightarrow> string option"
  is_file_input :: "element \<Rightarrow> bool"
  scrollY :: real
  location_href :: string

text \<open>\<open>document.querySelector\<close>: the first match in document order, null, or a throw.\<close>

definition querySelector :: "page \<Rightarrow> string \<Rightarrow> js_error + element option" where
  "querySelector page selector =
     (case querySelectorAll page selector of
        None \<Rightarrow> Inl SyntaxError
      | Some [] \<Rightarrow> Inr None
      | Some (e # _) \<Rightarrow> Inr (Some e))"

section \<open>player.ts: locating an element\<close>

text \<open>
  The inner loop of \<open>findElement\<close> over one selector array. The \<open>try\<close> around the
  query has an empty \<open>catch\<close>: a throwing selector falls through to the next one.
  \<open>Inr None\<close> means the loop ended without returning.
\<close>

fun findElement_array :: "page \<Rightarrow> string list \<Rightarrow> js_error + element option" where
  "findElement_array page [] = Inr None"
| "findElement_array page (selector # rest) =
     (case querySelector page selector of
        Inl _ \<Rightarrow> findElement_array page rest
      | Inr (Some element) \<Rightarrow> Inr (Some element)
      | Inr None \<Rightarrow> findElement_array page rest)"

text \<open>The outer loop over the selector strategies.\<close>

fun findElement_strategies :: "page \<Rightarrow> string list list \<Rightarrow> js_error + element option" where
  "findElement_strategies page [] = Inr None"
| "findElement_strategies page (selectorArray # rest) =
     (case findElement_array page selectorArray of
        Inl err \<Rightarrow> Inl err
      | Inr (Some element) \<Rightarrow> Inr (Some element)
      | Inr None \<Rightarrow> findElement_strategies page rest)"

text \<open>
  \<open>findElement(selectors?: string[][]): Element | null\<close>. The argument is optional;
  \<open>Inl\<close> would be an exception leaving the function.
\<close>

definition findElement :: "page \<Rightarrow> string list list option \<Rightarrow> js_error + element option" where
  "findElement page selectors =
     (case selectors of
        None \<Rightarrow> Inr None
      | Some sels \<Rightarrow>
          if length sels = 0 then Inr None else findElement_strategies page sels)"

text \<open>A query with this selector yields no element: it finds none, or it throws.\<close>

definition no_match :: "page \<Rightarrow> string \<Rightarrow> bool" where
  "no_match page selector =
     (case querySelector page selector of Inr (Some _) \<Rightarrow> False | _ \<Rightarrow> True)"

text \<open>
  The specification's locator hands back an element together with a confidence score.
  \<open>findElement\<close> hands back the bare element: seen as such a pair its confidence
  component is absent.
\<close>

datatype located = NotFound | Located element "real option"

definition locate :: "page \<Rightarrow> string list list option \<Rightarrow> js_error + located" where
  "locate page selectors =
     (case findElement page selectors of
        Inl err \<Rightarrow> Inl err
      | Inr None \<Rightarrow> Inr NotFound
      | Inr (Some element) \<Rightarrow> Inr (Located element None))"

text \<open>A page used in the examples: \<open>#submit\<close> matches element 7 alone, \<open>button\<close>
  matches three elements, \<open>#upload\<close> matches element 11, a file input, \<open>div[\<close> is
  not a selector, nothing else matches.\<close>

definition example_page :: page where
  "example_page =
     \<lparr> querySelectorAll = (\<lambda>s.
          if s = ''#submit'' then Some [7]
          else if s = ''button'' then Some [3, 7, 9]
          else if s = ''#upload'' then Some [11]
          else if s = ''div['' then None
          else Some []),
       getBoundingClientRect = (\<lambda>e.
          \<lparr> rect_left = 10, rect_top = 20, rect_width = 200, rect_height = 100 \<rparr>),
       getAttribute = (\<lambda>e a. None),
       is_file_input = (\<lambda>e. e = 11),
       scrollY = 40,
       location_href = ''https://example.test/'' \<rparr>"

section \<open>player.ts: steps and their effects\<close>

text \<open>
  A step as the recorder writes it and the player reads it (the Chrome DevTools Recorder
  shape, type \<open>RecordedStep\<close> of the recorder). Optional fields are options.
\<close>

datatype step_type =
  Click | Change | KeyDown | KeyUp | Scroll | Navigate | WaitForElement | AssertElement

datatype button = Primary | Secondary | Middle

record target =
  selectors :: "string list list"

record step =
  step_type :: step_type
  target :: "target option"
  offsetX :: "real option"
  offsetY :: "real option"
  button :: "button option"
  key :: "string option"
  step_value :: "string option"
  url :: "string option"

text \<open>
  The functions passed to \<open>setTimeout\<close>, as data: which closure it is and what it
  captured. The first four touch the page only, and \<open>run_callback\<close> below is what
  each does when its timer fires. \<open>NextStep\<close> is the call of \<open>executeNextStep\<close>
  and \<open>AutoHide\<close> the call of \<open>cleanup\<close>: they act on the player.
\<close>

datatype dom_callback =
    ClickDispatch element step
  | ChangeDispatch element step
  | KeyDispatch element step
  | RestoreStyle element string

datatype callback = Dom dom_callback | NextStep | AutoHide

text \<open>
  What the player does to the outside world, in the order it does it. Every synthesized
  event is created with \<open>bubbles: true\<close>. \<open>DispatchMouseEvent e t x y b\<close> carries
  \<open>clientX\<close>, \<open>clientY\<close> and \<open>button\<close>; \<open>SetTimeout cb ms\<close> arms a timer.
\<close>

datatype effect =
    ConsoleLog string
  | ConsoleLogStep string "step option"
  | ConsoleError string
  | Alert string
  | SetAttribute element string string
  | SetValue element string
  | DispatchMouseEvent element string real real nat
  | DispatchEvent element string
  | DispatchKeyboardEvent element string string
  | WindowScrollTo real
  | SetTimeout callback real
  | ClearTimeout
  | AppendContainer
  | RemoveContainer

text \<open>\<open>x || d\<close> on an optional number: undefined and 0 are both falsy.\<close>

definition or_number :: "real option \<Rightarrow> real \<Rightarrow> real" where
  "or_number x d = (case x of None \<Rightarrow> d | Some v \<Rightarrow> if v = 0 then d else v)"

text \<open>\<open>x || d\<close> on an optional string: undefined, null and the empty string are falsy.\<close>

definition or_string :: "string option \<Rightarrow> string \<Rightarrow> string" where
  "or_string x d = (case x of None \<Rightarrow> d | Some v \<Rightarrow> if v = [] then d else v)"

definition truthy_string :: "string option \<Rightarrow> bool" where
  "truthy_string x = (case x of None \<Rightarrow> False | Some v \<Rightarrow> v \<noteq> [])"

definition button_number :: "button option \<Rightarrow> nat" where
  "button_number b = (if b = Some Primary then 0 else if b = Some Middle then 1 else 2)"

text \<open>
  Assigning to \<open>element.value\<close>: a file input accepts the empty string only and
  throws an InvalidStateError on any other; every other element takes the value.
\<close>

definition value_setter_throws :: "page \<Rightarrow> element \<Rightarrow> string \<Rightarrow> bool" where
  "value_setter_throws page element v = (is_file_input page element \<and> v \<noteq> [])"

text \<open>
  The bodies of the timer callbacks that touch the page, run on the page as it is when
  the timer fires: what the callback did, and the exception that left it, if any. No
  \<open>try\<close> is around a callback: an exception leaving it is uncaught.
\<close>

fun run_callback :: "page \<Rightarrow> dom_callback \<Rightarrow> effect list \<times> js_error option" where
  "run_callback page (ClickDispatch element s) =
     (let rect = getBoundingClientRect page element in
      ([DispatchMouseEvent element ''click''
          (rect_left rect + or_number (offsetX s) (rect_width rect / 2))
          (rect_top rect + or_number (offsetY s) (rect_height rect / 2))
          (button_number (button s))], None))"
| "run_callback page (ChangeDispatch element s) =
     (if value_setter_throws page element (or_string (step_value s) [])
      then ([], Some InvalidStateError)
      else ([SetValue element (or_string (step_value s) []),
             DispatchEvent element ''input'',
             DispatchEvent element ''change''], None))"
| "run_callback page (KeyDispatch element s) =
     ([DispatchKeyboardEvent element
         (if step_type s = KeyDown then ''keydown'' else ''keyup'')
         (case key s of None \<Rightarrow> [] | Some k \<Rightarrow> k)], None)"
| "run_callback page (RestoreStyle element originalStyle) =
     ([SetAttribute element ''style'' originalStyle], None)"

definition highlightElement :: "page \<Rightarrow> element \<Rightarrow> effect list" where
  "highlightElement page element =
     (let originalStyle = or_string (getAttribute page element ''style'') [] in
      [SetAttribute element ''style''
         (originalStyle @
          ''; outline: 3px solid #ff6b6b; outline-offset: 2px; transition: outline 0.3s;''),
       SetTimeout (Dom (RestoreStyle element originalStyle)) 1000])"

text \<open>
  A step handler yields the effects it performed and, when an exception left it, the
  exception. \<open>step.target?.selectors\<close> is \<open>map_option selectors (target s)\<close>.
\<close>

type_synonym outcome = "effect list \<times> js_error option"

definition executeNavigate :: "page \<Rightarrow> step \<Rightarrow> outcome" where
  "executeNavigate page s =
     (if truthy_string (url s) \<and> url s \<noteq> Some (location_href page)
      then ([ConsoleLog ''[Zordon Player] Navigate to:''], None)
      else ([], None))"

definition executeClick :: "page \<Rightarrow> step \<Rightarrow> outcome" where
  "executeClick page s =
     (case findElement page (map_option selectors (target s)) of
        Inl err \<Rightarrow> ([], Some err)
      | Inr None \<Rightarrow> ([], None)
      | Inr (Some element) \<Rightarrow>
          (highlightElement page element @ [SetTimeout (Dom (ClickDispatch element s)) 200], None))"

definition executeChange :: "page \<Rightarrow> step \<Rightarrow> outcome" where
  "executeChange page s =
     (case findElement page (map_option selectors (target s)) of
        Inl err \<Rightarrow> ([], Some err)
      | Inr None \<Rightarrow> ([], None)
      | Inr (Some element) \<Rightarrow>
          if step_value s \<noteq> None
          then (highlightElement page element @ [SetTimeout (Dom (ChangeDispatch element s)) 200],
                None)
          else ([], None))"

definition executeKeyPress :: "page \<Rightarrow> step \<Rightarrow> outcome" where
  "executeKeyPress page s =
     (case findElement page (map_option selectors (target s)) of
        Inl err \<Rightarrow> ([], Some err)
      | Inr None \<Rightarrow> ([], None)
      | Inr (Some element) \<Rightarrow>
          if truthy_string (key s)
          then (highlightElement page element @ [SetTimeout (Dom (KeyDispatch element s)) 200],
                None)
          else ([], None))"

text \<open>The step is not looked at: the window is scrolled down by 100 pixels.\<close>

definition executeScroll :: "page \<Rightarrow> step \<Rightarrow> outcome" where
  "executeScroll page unused_step = ([WindowScrollTo (scrollY page + 100)], None)"

text \<open>
  The \<open>try\<close> block of \<open>executeStep\<close>. The recording's \<open>steps\<close> are typed
  \<open>any[]\<close>; an entry that is null or undefined (\<open>None\<close>) makes \<open>step.type\<close>
  throw a TypeError.
\<close>

definition executeStep_try :: "page \<Rightarrow> step option \<Rightarrow> outcome" where
  "executeStep_try page st =
     (case st of
        None \<Rightarrow> ([], Some TypeError)
      | Some s \<Rightarrow>
          (case step_type s of
             Navigate \<Rightarrow> executeNavigate page s
           | Click \<Rightarrow> executeClick page s
           | Change \<Rightarrow> executeChange page s
           | KeyDown \<Rightarrow> executeKeyPress page s
           | KeyUp \<Rightarrow> executeKeyPress page s
           | Scroll \<Rightarrow> executeScroll page s
           | _ \<Rightarrow> ([ConsoleLog ''[Zordon Player] Unsupported step type:''], None)))"

text \<open>\<open>executeStep\<close>: log the step, run the \<open>try\<close> block, and in the \<open>catch\<close> log
  the error. The second component is the exception leaving \<open>executeStep\<close>.\<close>

definition executeStep :: "page \<Rightarrow> step option \<Rightarrow> outcome" where
  "executeStep page st =
     (case executeStep_try page st of
        (effs, Some err) \<Rightarrow>
          (ConsoleLogStep ''[Zordon Player] Executing step:'' st # effs @
           [ConsoleError ''[Zordon Player] Error executing step:''], None)
      | (effs, None) \<Rightarrow>
          (ConsoleLogStep ''[Zordon Player] Executing step:'' st # effs, None))"

section \<open>player.ts: the playback loop\<close>

text \<open>The overlay the player adds to the page: its \<open>display\<close> style and its text.\<close>

record container =
  display :: string
  message :: string

text \<open>The fields of \<open>DOMPlayer\<close>. \<open>playbackInterval\<close> says whether a timer handle
  is stored.\<close>

record player =
  playerContainer :: "container option"
  isPlaying :: bool
  currentStepIndex :: nat
  steps :: "step option list"
  playbackSpeed :: real
  playbackInterval :: bool

definition new_player :: player where
  "new_player =
     \<lparr> playerContainer = None, isPlaying = False, currentStepIndex = 0, steps = [],
       playbackSpeed = 1, playbackInterval = False \<rparr>"

record recorded_event =
  event_type :: string
  timestamp :: real
  event_step :: "step option"

record recording =
  rec_id :: string
  rec_title :: "string option"
  rec_events :: "recorded_event list option"
  rec_steps :: "step option list option"

definition cleanup :: "player \<Rightarrow> player \<times> effect list" where
  "cleanup p =
     (p\<lparr> playbackInterval := False, isPlaying := False, currentStepIndex := 0,
         steps := [], playerContainer := None \<rparr>,
      (if playbackInterval p then [ClearTimeout] else []) @
      (if playerContainer p \<noteq> None then [RemoveContainer] else []))"

text \<open>The overlay is appended to \<open>document.body\<close>, which the page has.\<close>

definition createPlayerUI :: "player \<Rightarrow> recording \<Rightarrow> player \<times> effect list" where
  "createPlayerUI p rec =
     (p\<lparr> playerContainer :=
           Some \<lparr> display = ''none'',
                  message = ''Playing Recording: '' @ or_string (rec_title rec) ''Untitled'' \<rparr> \<rparr>,
      [AppendContainer])"

definition showCompletionMessage :: "player \<Rightarrow> player \<times> effect list" where
  "showCompletionMessage p =
     (case playerContainer p of
        None \<Rightarrow> (p, [])
      | Some c \<Rightarrow>
          (p\<lparr> playerContainer :=
                Some (c\<lparr> display := ''block'', message := ''Playback Complete!'' \<rparr>) \<rparr>,
           [SetTimeout AutoHide 3000]))"

text \<open>
  One call of \<open>executeNextStep\<close>. When it goes on, its last effect arms the timer for
  the next call; the third component is an exception leaving the call.
\<close>

definition executeNextStep :: "page \<Rightarrow> player \<Rightarrow> player \<times> effect list \<times> js_error option" where
  "executeNextStep page p =
     (if \<not> isPlaying p \<or> currentStepIndex p \<ge> length (steps p) then
        (case showCompletionMessage (p\<lparr> isPlaying := False \<rparr>) of
           (p', effs) \<Rightarrow> (p', effs, None))
      else
        (case executeStep page (steps p ! currentStepIndex p) of
           (effs, Some err) \<Rightarrow> (p, effs, Some err)
         | (effs, None) \<Rightarrow>
             (p\<lparr> currentStepIndex := currentStepIndex p + 1, playbackInterval := True \<rparr>,
              effs @ [SetTimeout NextStep (max 500 (1000 / playbackSpeed p))],
              None)))"

definition armed_next :: "effect list \<Rightarrow> bool" where
  "armed_next effs =
     (case rev effs of
        SetTimeout NextStep d # _ \<Rightarrow> True
      | _ \<Rightarrow> False)"

text \<open>
  The chain of calls of \<open>executeNextStep\<close> taken on its own: the first one and every
  one a \<open>NextStep\<close> timer of the chain fires, until a call arms no timer.
  \<open>pages i\<close> is the page as it is when the call at cursor \<open>i\<close> runs. The result is
  the last state, everything these calls did in order, and an exception if one stopped
  the chain. The other timers (the dispatch callbacks, the restoring of the style, the
  auto-hide) are not run here: the section on the timers of the page runs them all.
\<close>

function playback :: "(nat \<Rightarrow> page) \<Rightarrow> player \<Rightarrow> player \<times> effect list \<times> js_error option" where
  "playback pages p =
     (case executeNextStep (pages (currentStepIndex p)) p of
        (p', effs, thrown) \<Rightarrow>
          if thrown = None \<and> armed_next effs
          then (case playback pages p' of
                  (p'', effs', thrown') \<Rightarrow> (p'', effs @ effs', thrown'))
          else (p', effs, thrown))"
  by pat_completeness auto
termination
  apply (relation "measure (\<lambda>(pages, p). length (steps p) - currentStepIndex p)")
   apply simp
  apply (auto simp: executeNextStep_def showCompletionMessage_def armed_next_def
      split: prod.splits option.splits if_splits)
  done

declare playback.simps [simp del]

definition startPlayback :: "(nat \<Rightarrow> page) \<Rightarrow> player \<Rightarrow> player \<times> effect list \<times> js_error option" where
  "startPlayback pages p =
     (if length (steps p) = 0 then (p, [], None)
      else playback pages (p\<lparr> isPlaying := True \<rparr>))"

text \<open>\<open>playRecording\<close> of the player, with the timer chain it starts run to its end.\<close>

definition playRecording :: "(nat \<Rightarrow> page) \<Rightarrow> player \<Rightarrow> recording \<Rightarrow> player \<times> effect list \<times> js_error option" where
  "playRecording pages p rec =
     (case cleanup p of
        (p1, effs1) \<Rightarrow>
          (let p2 = p1\<lparr> steps := (case rec_steps rec of None \<Rightarrow> [] | Some ss \<Rightarrow> ss),
                       currentStepIndex := 0 \<rparr>
           in if length (steps p2) = 0
              then (p2,
                    ConsoleLog ''[Zordon] Starting playback for:'' # effs1 @
                    [ConsoleError ''[Zordon] No steps found in recording'',
                     Alert ''This recording has no steps to play back.''],
                    None)
              else (case createPlayerUI p2 rec of
                      (p3, effs3) \<Rightarrow>
                        (case startPlayback pages p3 of
                           (p4, effs4, thrown) \<Rightarrow>
                             (p4,
                              ConsoleLog ''[Zordon] Starting playback for:'' # effs1 @
                              effs3 @ effs4,
                              thrown)))))"

section \<open>player.ts: the timers of the page\<close>

text \<open>
  Everything the player does after \<open>playRecording\<close> returns is done by timers. The
  world is the player, the timers armed and not yet fired with the time each is due (in
  the order they were armed), the clock, everything done so far, and the exceptions that
  left a callback or a call and were caught by nothing.
\<close>

record world =
  w_player :: player
  w_timers :: "(real \<times> callback) list"
  w_clock :: real
  w_trace :: "effect list"
  w_uncaught :: "js_error list"

definition new_world :: world where
  "new_world =
     \<lparr> w_player = new_player, w_timers = [], w_clock = 0, w_trace = [], w_uncaught = [] \<rparr>"

text \<open>
  What a list of effects does to the pending timers: \<open>setTimeout\<close> adds one, due after
  its delay. The only \<open>clearTimeout\<close> of the player is on \<open>playbackInterval\<close>, the
  handle of the last \<open>NextStep\<close> timer armed: it cancels the pending \<open>NextStep\<close>
  timer, if there is one. The handle of the auto-hide timer is not kept, and nothing
  cancels it.
\<close>

fun arm :: "real \<Rightarrow> effect list \<Rightarrow> (real \<times> callback) list \<Rightarrow> (real \<times> callback) list" where
  "arm now [] pending = pending"
| "arm now (SetTimeout cb delay # effs) pending = arm now effs (pending @ [(now + delay, cb)])"
| "arm now (ClearTimeout # effs) pending =
     arm now effs (filter (\<lambda>t. snd t \<noteq> NextStep) pending)"
| "arm now (e # effs) pending = arm now effs pending"

text \<open>The timer that fires next: the earliest due, the first armed among equals.\<close>

fun next_timer :: "(real \<times> callback) list \<Rightarrow> (real \<times> callback) option" where
  "next_timer [] = None"
| "next_timer (t # ts) =
     (case next_timer ts of
        None \<Rightarrow> Some t
      | Some u \<Rightarrow> if fst u < fst t then Some u else Some t)"

text \<open>A call has run at time \<open>now\<close>: the world takes its result.\<close>

definition absorb :: "real \<Rightarrow> player \<times> effect list \<times> js_error option \<Rightarrow> (real \<times> callback) list \<Rightarrow> world \<Rightarrow> world" where
  "absorb now result pending w =
     (case result of
        (p', effs, thrown) \<Rightarrow>
          w\<lparr> w_player := p', w_timers := arm now effs pending, w_clock := now,
             w_trace := w_trace w @ effs,
             w_uncaught := w_uncaught w @ (case thrown of None \<Rightarrow> [] | Some err \<Rightarrow> [err]) \<rparr>)"

text \<open>
  One timer fires, if one is pending. A \<open>NextStep\<close> timer calls
  \<open>executeNextStep\<close>, the auto-hide timer calls \<open>cleanup\<close>, the others run their
  callback on the page as it is then.
\<close>

definition fire :: "(real \<Rightarrow> page) \<Rightarrow> world \<Rightarrow> world option" where
  "fire page_at w =
     (case next_timer (w_timers w) of
        None \<Rightarrow> None
      | Some (due, cb) \<Rightarrow>
          (let pending = remove1 (due, cb) (w_timers w); page = page_at due in
           Some (case cb of
                   Dom d \<Rightarrow>
                     (case run_callback page d of
                        (effs, thrown) \<Rightarrow> absorb due (w_player w, effs, thrown) pending w)
                 | NextStep \<Rightarrow> absorb due (executeNextStep page (w_player w)) pending w
                 | AutoHide \<Rightarrow>
                     (case cleanup (w_player w) of
                        (p', effs) \<Rightarrow> absorb due (p', effs, None) pending w))))"

text \<open>At most \<open>n\<close> timers fire, one after the other.\<close>

fun run_timers :: "nat \<Rightarrow> (real \<Rightarrow> page) \<Rightarrow> world \<Rightarrow> world" where
  "run_timers 0 page_at w = w"
| "run_timers (Suc n) page_at w =
     (case fire page_at w of None \<Rightarrow> w | Some w' \<Rightarrow> run_timers n page_at w')"

text \<open>
  The call of \<open>playRecording\<close> by itself, when its message arrives: as
  \<open>playRecording\<close> above, but \<open>startPlayback\<close> makes the first call of
  \<open>executeNextStep\<close> only, and the timers are left pending.
\<close>

definition playRecording_call :: "page \<Rightarrow> player \<Rightarrow> recording \<Rightarrow> player \<times> effect list \<times> js_error option" where
  "playRecording_call page p rec =
     (case cleanup p of
        (p1, effs1) \<Rightarrow>
          (let p2 = p1\<lparr> steps := (case rec_steps rec of None \<Rightarrow> [] | Some ss \<Rightarrow> ss),
                       currentStepIndex := 0 \<rparr>
           in if length (steps p2) = 0
              then (p2,
                    ConsoleLog ''[Zordon] Starting playback for:'' # effs1 @
                    [ConsoleError ''[Zordon] No steps found in recording'',
                     Alert ''This recording has no steps to play back.''],
                    None)
              else (case createPlayerUI p2 rec of
                      (p3, effs3) \<Rightarrow>
                        (case executeNextStep page (p3\<lparr> isPlaying := True \<rparr>) of
                           (p4, effs4, thrown) \<Rightarrow>
                             (p4,
                              ConsoleLog ''[Zordon] Starting playback for:'' # effs1 @
                              effs3 @ effs4,
                              thrown)))))"

definition play_at :: "real \<Rightarrow> page \<Rightarrow> recording \<Rightarrow> world \<Rightarrow> world" where
  "play_at now page rec w =
     absorb now (playRecording_call page (w_player w) rec) (w_timers w) w"

section \<open>Reading a trace\<close>

text \<open>The steps whose execution a trace logs, in order, and the delays of the timers
  it arms for the next call of \<open>executeNextStep\<close>.\<close>

fun logged_step :: "effect \<Rightarrow> step option list" where
  "logged_step (ConsoleLogStep m st) = [st]"
| "logged_step _ = []"

definition executed_steps :: "effect list \<Rightarrow> step option list" where
  "executed_steps effs = concat (map logged_step effs)"

fun next_delay :: "effect \<Rightarrow> real list" where
  "next_delay (SetTimeout NextStep d) = [d]"
| "next_delay _ = []"

definition next_delays :: "effect list \<Rightarrow> real list" where
  "next_delays effs = concat (map next_delay effs)"

section \<open>Example steps and recordings\<close>

definition click_step :: step where
  "click_step =
     \<lparr> step_type = Click, target = Some \<lparr> selectors = [[''#submit'']] \<rparr>,
       offsetX = Some 30, offsetY = Some 15, button = Some Primary, key = None,
       step_value = None, url = None \<rparr>"

definition change_step :: step where
  "change_step =
     \<lparr> step_type = Change, target = Some \<lparr> selectors = [[''div['', ''#submit'']] \<rparr>,
       offsetX = None, offsetY = None, button = None, key = None,
       step_value = Some ''hello'', url = None \<rparr>"

definition scroll_step :: step where
  "scroll_step =
     \<lparr> step_type = Scroll, target = Some \<lparr> selectors = [[''#submit'']] \<rparr>,
       offsetX = None, offsetY = None, button = None, key = None,
       step_value = None, url = None \<rparr>"

text \<open>The step the recorder writes when a file is chosen in the file input: the value
  such an input reports is a fixed fake path (drive C, folder fakepath) followed by the
  file name.\<close>

definition upload_step :: step where
  "upload_step =
     \<lparr> step_type = Change, target = Some \<lparr> selectors = [[''#upload'']] \<rparr>,
       offsetX = None, offsetY = None, button = None, key = None,
       step_value = Some (''C:'' @ [CHR 0x5C] @ ''fakepath'' @ [CHR 0x5C] @ ''cv.pdf''),
       url = None \<rparr>"

definition recorded_rect :: rect where
  "recorded_rect = \<lparr> rect_left = 10, rect_top = 20, rect_width = 100, rect_height = 50 \<rparr>"

definition three_steps :: "step option list" where
  "three_steps = [None, Some click_step, Some change_step]"

definition empty_recording :: recording where
  "empty_recording =
     \<lparr> rec_id = ''rec_1'', rec_title = None, rec_events = Some [], rec_steps = Some [] \<rparr>"

definition three_step_recording :: recording where
  "three_step_recording =
     \<lparr> rec_id = ''rec_2'', rec_title = Some ''Checkout'',
       rec_events = Some
         [\<lparr> event_type = ''click'', timestamp = 1000, event_step = Some click_step \<rparr>,
          \<lparr> event_type = ''input'', timestamp = 1100, event_step = Some change_step \<rparr>],
       rec_steps = Some three_steps \<rparr>"

definition playing_three_steps :: player where
  "playing_three_steps = new_player\<lparr> steps := three_steps, isPlaying := True \<rparr>"

text \<open>
  Two replays on the example page. The first, of one step, starts at time 0; its
  completion overlay is up at time 1000. The second, of four steps, is asked for at
  time 2500, while the overlay of the first is still up.
\<close>

definition one_scroll_recording :: recording where
  "one_scroll_recording =
     \<lparr> rec_id = ''rec_3'', rec_title = None, rec_events = None,
       rec_steps = Some [Some scroll_step] \<rparr>"

definition four_scroll_recording :: recording where
  "four_scroll_recording =
     \<lparr> rec_id = ''rec_4'', rec_title = None, rec_events = None,
       rec_steps = Some [Some scroll_step, Some scroll_step, Some scroll_step, Some scroll_step] \<rparr>"

definition after_first_replay :: world where
  "after_first_replay =
     run_timers 1 (\<lambda>t. example_page) (play_at 0 example_page one_scroll_recording new_world)"

definition second_replay_started :: world where
  "second_replay_started = play_at 2500 example_page four_scroll_recording after_first_replay"

definition after_second_replay :: world where
  "after_second_replay = run_timers 10 (\<lambda>t. example_page) second_replay_started"

text \<open>The replay of the step recorded on the file input, run until no timer is left.\<close>

definition one_upload_recording :: recording where
  "one_upload_recording =
     \<lparr> rec_id = ''rec_5'', rec_title = None, rec_events = None,
       rec_steps = Some [Some upload_step] \<rparr>"

definition after_upload_replay :: world where
  "after_upload_replay =
     run_timers 10 (\<lambda>t. example_page) (play_at 0 example_page one_upload_recording new_world)"

section \<open>service-worker.ts: the playback request\<close>

datatype sw_error = Error string

text \<open>
  \<open>playRecording(recordingId, tabId?)\<close> of the background service. \<open>recordings\<close> is
  what the store holds, \<open>sendMessage_ok tab\<close> whether the message to the tab's content
  script gets through. A tab id of 0 is falsy like an absent one. \<open>Inl\<close> is the thrown
  error, \<open>Inr\<close> the tab and the recording sent to it.
\<close>

definition sw_playRecording :: "recording list \<Rightarrow> (nat \<Rightarrow> bool) \<Rightarrow> string \<Rightarrow> nat option \<Rightarrow> sw_error + nat \<times> recording" where
  "sw_playRecording recordings sendMessage_ok recordingId tabId =
     (case tabId of
        None \<Rightarrow> Inl (Error ''No active tab'')
      | Some tab \<Rightarrow>
          if tab = 0 then Inl (Error ''No active tab'')
          else
            (case find (\<lambda>r. rec_id r = recordingId) recordings of
               None \<Rightarrow> Inl (Error ''Recording not found'')
             | Some rec \<Rightarrow>
                 if (case rec_events rec of None \<Rightarrow> True | Some evs \<Rightarrow> length evs = 0)
                 then Inl (Error ''Recording has no events'')
                 else if sendMessage_ok tab then Inr (tab, rec)
                 else Inl (Error ''Failed to communicate with page. Try refreshing the page.'')))"

section \<open>The recorder: generating selectors\<close>

text \<open>
  An element as \<open>generateSelectors\<close> sees it: its own properties and the chain of its
  ancestors. \<open>className\<close> is a string on HTML elements and an object on SVG ones.
  \<open>tags_before\<close> and \<open>tags_after\<close> are the tag names of the parent's other children,
  before and after the element, in order; \<open>is_body\<close> says the element is
  \<open>document.body\<close>.
\<close>

datatype class_name = ClassString string | ClassObject

datatype dom_element = Element
  (tagName: string) (element_id: string) (className: class_name)
  (attributes: "(string \<times> string) list") (is_body: bool)
  (tags_before: "string list") (tags_after: "string list")
  (parentElement: "dom_element option")

definition element_attribute :: "dom_element \<Rightarrow> string \<Rightarrow> string option" where
  "element_attribute element name = map_of (attributes element) name"

subsection \<open>String operations of the language\<close>

text \<open>Strings are byte strings here; case and white space are those of ASCII.\<close>

definition lower_char :: "char \<Rightarrow> char" where
  "lower_char c =
     (let n = (of_char c :: nat) in if 65 \<le> n \<and> n \<le> 90 then char_of (n + 32) else c)"

definition toLowerCase :: "string \<Rightarrow> string" where
  "toLowerCase s = map lower_char s"

definition is_space :: "char \<Rightarrow> bool" where
  "is_space c = ((of_char c :: nat) \<in> set [9, 10, 11, 12, 13, 32])"

definition trim :: "string \<Rightarrow> string" where
  "trim s = rev (dropWhile is_space (rev (dropWhile is_space s)))"

text \<open>
  \<open>s.split(/\s+/)\<close>: cut at every maximal run of white space. \<open>in_run\<close> says the
  previous character was white space, \<open>piece\<close> is the piece being read.
\<close>

fun split_go :: "string \<Rightarrow> bool \<Rightarrow> string \<Rightarrow> string list" where
  "split_go [] in_run piece = [piece]"
| "split_go (c # cs) in_run piece =
     (if is_space c
      then (if in_run then split_go cs True piece else piece # split_go cs True [])
      else split_go cs False (piece @ [c]))"

definition split_spaces :: "string \<Rightarrow> string list" where
  "split_spaces s = split_go s False []"

fun join :: "string \<Rightarrow> string list \<Rightarrow> string" where
  "join sep [] = []"
| "join sep [x] = x"
| "join sep (x # y # ys) = x @ sep @ join sep (y # ys)"

text \<open>A number inside a template literal: its decimal digits.\<close>

fun show_nat :: "nat \<Rightarrow> string" where
  "show_nat n =
     (if n < 10 then [char_of (48 + n)]
      else show_nat (n div 10) @ [char_of (48 + n mod 10)])"

subsection \<open>The four strategies\<close>

definition strategy_id :: "dom_element \<Rightarrow> string list option" where
  "strategy_id element =
     (if element_id element \<noteq> [] then Some [''#'' @ element_id element] else None)"

definition strategy_class :: "dom_element \<Rightarrow> string list option" where
  "strategy_class element =
     (case className element of
        ClassObject \<Rightarrow> None
      | ClassString cn \<Rightarrow>
          if cn \<noteq> [] then
            (let classes = split_spaces (trim cn) in
             if length classes > 0
             then Some [toLowerCase (tagName element) @ ''.'' @ join ''.'' classes]
             else None)
          else None)"

text \<open>
  The \<open>while\<close> loop of the path strategy, from \<open>current\<close> upwards: it stops at
  \<open>document.body\<close>, at an element with an id (which it prepends), or above the root.
\<close>

fun path_walk :: "dom_element \<Rightarrow> string list \<Rightarrow> string list" where
  "path_walk (Element tag eid cls attrs body prev_tags next_tags parent) path =
     (if body then path
      else if eid \<noteq> [] then (''#'' @ eid) # path
      else
        (case parent of
           None \<Rightarrow> toLowerCase tag # path
         | Some p \<Rightarrow>
             (let siblings = filter (\<lambda>t. t = tag) (prev_tags @ tag # next_tags);
                  index = length (filter (\<lambda>t. t = tag) prev_tags) + 1;
                  selector =
                    toLowerCase tag @
                    (if length siblings > 1 then '':nth-child('' @ show_nat index @ '')''
                     else [])
              in path_walk p (selector # path))))"

definition strategy_path :: "dom_element \<Rightarrow> string list option" where
  "strategy_path element =
     (let path = path_walk element [] in if length path > 0 then Some path else None)"

definition attr_selector :: "dom_element \<Rightarrow> string \<Rightarrow> string list" where
  "attr_selector element name =
     (case element_attribute element name of
        None \<Rightarrow> []
      | Some v \<Rightarrow>
          if v \<noteq> [] then [''['' @ name @ ''='' @ [CHR 0x22] @ v @ [CHR 0x22] @ '']'']
          else [])"

definition strategy_attrs :: "dom_element \<Rightarrow> string list option" where
  "strategy_attrs element =
     (let attrs =
            attr_selector element ''data-testid'' @ attr_selector element ''name'' @
            attr_selector element ''type''
      in if length attrs > 0 then Some [toLowerCase (tagName element) @ concat attrs]
         else None)"

definition strategies :: "(dom_element \<Rightarrow> string list option) list" where
  "strategies = [strategy_id, strategy_class, strategy_path, strategy_attrs]"

definition generateSelectors :: "dom_element \<Rightarrow> string list list" where
  "generateSelectors element =
     (let selectors =
            fold (\<lambda>strategy acc.
                    case strategy element of None \<Rightarrow> acc | Some result \<Rightarrow> acc @ [result])
              strategies []
      in if length selectors = 0 then selectors @ [[toLowerCase (tagName element)]]
         else selectors)"

subsection \<open>Example elements\<close>

definition html_element :: dom_element where
  "html_element = Element ''HTML'' [] (ClassString []) [] False [] [] None"

definition body_element :: dom_element where
  "body_element =
     Element ''BODY'' [] (ClassString []) [] True [''HEAD''] [] (Some html_element)"

text \<open>\<open><input name="q">\<close>, the only child of the body.\<close>

definition search_input :: dom_element where
  "search_input =
     Element ''INPUT'' [] (ClassString []) [(''name'', ''q'')] False [] []
       (Some body_element)"

text \<open>\<open><button id="submit" class="btn  primary" type="submit">\<close>, after an input in
  the body.\<close>

definition submit_button :: dom_element where
  "submit_button =
     Element ''BUTTON'' ''submit'' (ClassString ''btn  primary'') [(''type'', ''submit'')]
       False [''INPUT''] [] (Some body_element)"

section \<open>The specification's wording, for comparison\<close>

definition option_list :: "'a option \<Rightarrow> 'a list" where
  "option_list x = (case x of None \<Rightarrow> [] | Some v \<Rightarrow> [v])"

text \<open>
  The candidate order the specification gives: the id selector, then the attribute
  selector, then the ancestor path, and the bare tag name last.
\<close>

definition spec_order_generateSelectors :: "dom_element \<Rightarrow> string list list" where
  "spec_order_generateSelectors element =
     option_list (strategy_id element) @ option_list (strategy_attrs element) @
     option_list (strategy_path element) @ [[toLowerCase (tagName element)]]"

text \<open>
  The inter-step delay the specification gives: the gap between the two capture times
  divided by the speed multiplier, at most the cap when there is one.
\<close>

definition spec_interStepDelay :: "real option \<Rightarrow> real \<Rightarrow> real \<Rightarrow> real \<Rightarrow> real" where
  "spec_interStepDelay cap capturedAt_prev capturedAt_next speedMultiplier =
     (let gap = (capturedAt_next - capturedAt_prev) / speedMultiplier in
      case cap of None \<Rightarrow> gap | Some c \<Rightarrow> min gap c)"

text \<open>
  The click point the specification gives: the recorded offset, relative to the box as
  it was recorded, scaled to the box as it is now.
\<close>

definition spec_clickPoint :: "rect \<Rightarrow> rect \<Rightarrow> real \<Rightarrow> real \<Rightarrow> real \<times> real" where
  "spec_clickPoint recorded current offX offY =
     (rect_left current + offX / rect_width recorded * rect_width current,
      rect_top current + offY / rect_height recorded * rect_height current)"

text \<open>
  The scroll the specification gives: the recorded delta, applied to the nearest
  scrollable ancestor of the target, or to the document when the step has no target.
\<close>

datatype scroll_request = ScrollDocumentBy real | ScrollElementBy element real

definition spec_executeScroll :: "element option \<Rightarrow> real \<Rightarrow> scroll_request" where
  "spec_executeScroll scrollable_ancestor delta =
     (case scrollable_ancestor of
        None \<Rightarrow> ScrollDocumentBy delta
      | Some a \<Rightarrow> ScrollElementBy a delta)"

text \<open>A scroll effect of the player read as such a request.\<close>

fun scroll_request_of :: "page \<Rightarrow> effect \<Rightarrow> scroll_request option" where
  "scroll_request_of page (WindowScrollTo y) = Some (ScrollDocumentBy (y - scrollY page))"
| "scroll_request_of page _ = None"

section \<open>Properties of the element locator\<close>

lemma findElement_array_total: "\<exists>r. findElement_array page sels = Inr r"
  by (induction sels) (auto split: sum.splits option.splits)

lemma findElement_strategies_total: "\<exists>r. findElement_strategies page sels = Inr r"
proof (induction sels)
  case Nil
  show ?case by simp
next
  case (Cons a sels)
  obtain r where "findElement_array page a = Inr r"
    using findElement_array_total by blast
  with Cons show ?case by (cases r) auto
qed

lemma findElement_array_append:
  "findElement_array page (xs @ ys) =
     (case findElement_array page xs of
        Inr None \<Rightarrow> findElement_array page ys
      | r \<Rightarrow> r)"
  by (induction xs) (auto split: sum.splits option.splits)

lemma findElement_strategies_concat:
  "findElement_strategies page sels = findElement_array page (concat sels)"
  by (induction sels) (auto simp: findElement_array_append split: sum.splits option.splits)

lemma findElement_array_no_match:
  "list_all (no_match page) pre \<Longrightarrow> findElement_array page pre = Inr None"
  by (induction pre) (auto simp: no_match_def split: sum.splits option.splits)

lemma findElement_array_filter_valid:
  "findElement_array page (filter (\<lambda>s. querySelectorAll page s \<noteq> None) sels) =
   findElement_array page sels"
  by (induction sels) (auto simp: querySelector_def split: sum.splits option.splits list.splits)

lemma findElement_concat:
  "findElement page (Some sels) = findElement_array page (concat sels)"
  by (cases sels) (simp_all add: findElement_def findElement_strategies_concat del: findElement_strategies.simps)

lemma findElement_array_first:
  "findElement_array page sels =
     Inr (case List.map_filter
                 (\<lambda>s. case querySelectorAll page s of Some (e # _) \<Rightarrow> Some e | _ \<Rightarrow> None)
                 sels of
            [] \<Rightarrow> None
          | e # _ \<Rightarrow> Some e)"
  by (induction sels)
    (auto simp: querySelector_def List.map_filter_simps split: option.splits list.splits)

text \<open>
  Claim C10. Whatever its argument is (absent, an empty list, or lists holding strings
  that are not valid selectors), \<open>findElement\<close> returns an element or null and throws
  nothing. A selector on which the query throws is skipped and the remaining candidates
  are still tried in order: the result is the first match of the first candidate, in
  the order of the lists, whose query yields an element; it is the same with the
  invalid selectors taken out; and a candidate that yields an element after candidates
  that yield none, invalid ones among them, gives the result.
\<close>

theorem findElement_total_skips_invalid:
  "(\<exists>r. findElement page optional_selectors = Inr r) \<and>
   findElement page None = Inr None \<and>
   findElement page (Some []) = Inr None \<and>
   findElement page (Some sels) =
     findElement page (Some (map (filter (\<lambda>s. querySelectorAll page s \<noteq> None)) sels)) \<and>
   findElement page (Some sels) =
     Inr (case List.map_filter
                 (\<lambda>s. case querySelectorAll page s of Some (e # _) \<Rightarrow> Some e | _ \<Rightarrow> None)
                 (concat sels) of
            [] \<Rightarrow> None
          | e # _ \<Rightarrow> Some e) \<and>
   (concat sels' = pre @ c # post \<and> list_all (no_match page) pre \<and>
    querySelector page c = Inr (Some found)
      \<longrightarrow> findElement page (Some sels') = Inr (Some found))"
proof -
  have total: "\<exists>r. findElement page optional_selectors = Inr r"
    using findElement_strategies_total [of page]
    by (cases optional_selectors) (auto simp: findElement_def)
  have absent: "findElement page None = Inr None"
    by (simp add: findElement_def)
  have empty: "findElement page (Some []) = Inr None"
    by (simp add: findElement_def)
  have flat: "concat (map (filter (\<lambda>s. querySelectorAll page s \<noteq> None)) sels) =
        filter (\<lambda>s. querySelectorAll page s \<noteq> None) (concat sels)"
    by (simp only: filter_concat)
  have skip: "findElement page (Some sels) =
     findElement page (Some (map (filter (\<lambda>s. querySelectorAll page s \<noteq> None)) sels))"
    unfolding findElement_concat flat findElement_array_filter_valid by (rule refl)
  have first: "findElement page (Some sels) =
     Inr (case List.map_filter
                 (\<lambda>s. case querySelectorAll page s of Some (e # _) \<Rightarrow> Some e | _ \<Rightarrow> None)
                 (concat sels) of
            [] \<Rightarrow> None
          | e # _ \<Rightarrow> Some e)"
    unfolding findElement_concat by (rule findElement_array_first)
  have later: "concat sels' = pre @ c # post \<and> list_all (no_match page) pre \<and>
    querySelector page c = Inr (Some found)
      \<longrightarrow> findElement page (Some sels') = Inr (Some found)"
  proof
    assume h: "concat sels' = pre @ c # post \<and> list_all (no_match page) pre \<and>
      querySelector page c = Inr (Some found)"
    then have "findElement_array page pre = Inr None"
      by (simp add: findElement_array_no_match)
    with h show "findElement page (Some sels') = Inr (Some found)"
      by (simp add: findElement_concat findElement_array_append)
  qed
  from total absent empty skip first later show ?thesis by blast
qed

theorem findElement_total_skips_invalid_witness:
  "concat [[''div['', ''nav''], [], [''#submit'', ''button'']] =
     [''div['', ''nav''] @ ''#submit'' # [''button''] \<and>
   querySelectorAll example_page ''div['' = None \<and>
   list_all (no_match example_page) [''div['', ''nav''] \<and>
   querySelector example_page ''#submit'' = Inr (Some 7) \<and>
   findElement example_page (Some [[''div['', ''nav''], [], [''#submit'', ''button'']]) =
     Inr (Some 7) \<and>
   findElement example_page (Some [[''div['', ''button''], [''#submit'']]) = Inr (Some 3) \<and>
   findElement example_page (Some [[''div['', ''nav'']]) = Inr None"
proof -
  have h: "concat [[''div['', ''nav''], [], [''#submit'', ''button'']] =
     [''div['', ''nav''] @ ''#submit'' # [''button''] \<and>
   list_all (no_match example_page) [''div['', ''nav''] \<and>
   querySelector example_page ''#submit'' = Inr (Some 7)"
    by (simp add: example_page_def no_match_def querySelector_def)
  have bad: "querySelectorAll example_page ''div['' = None"
    by (simp add: example_page_def)
  from findElement_total_skips_invalid
    [where page = example_page and sels' = "[[''div['', ''nav''], [], [''#submit'', ''button'']]"
      and pre = "[''div['', ''nav'']" and c = "''#submit''" and post = "[''button'']"
      and found = 7] h
  have a: "findElement example_page (Some [[''div['', ''nav''], [], [''#submit'', ''button'']]) =
     Inr (Some 7)"
    by blast
  note first = findElement_total_skips_invalid
    [THEN conjunct2, THEN conjunct2, THEN conjunct2, THEN conjunct2, THEN conjunct1]
  have b: "findElement example_page (Some [[''div['', ''button''], [''#submit'']]) = Inr (Some 3)"
    by (subst first) (simp add: example_page_def List.map_filter_simps)
  have c: "findElement example_page (Some [[''div['', ''nav'']]) = Inr None"
    by (subst first) (simp add: example_page_def List.map_filter_simps)
  from h bad a b c show ?thesis by simp
qed

text \<open>
  Claim C1, as the code has it. When the first candidate selector matches exactly one
  live element, \<open>findElement\<close> returns that element; more generally the first
  candidate, in order, whose query yields an element decides the result. The result is
  the bare element: no confidence is computed.
\<close>

theorem findElement_first_match_wins:
  "(concat sels = c # cs \<and> querySelectorAll page c = Some [e]
      \<longrightarrow> findElement page (Some sels) = Inr (Some e)) \<and>
   (concat sels' = pre @ c' # post \<and> list_all (no_match page) pre \<and>
    querySelector page c' = Inr (Some e')
      \<longrightarrow> findElement page (Some sels') = Inr (Some e'))"
proof (intro conjI impI)
  assume "concat sels = c # cs \<and> querySelectorAll page c = Some [e]"
  then show "findElement page (Some sels) = Inr (Some e)"
    by (simp add: findElement_concat querySelector_def)
next
  assume h: "concat sels' = pre @ c' # post \<and> list_all (no_match page) pre \<and>
    querySelector page c' = Inr (Some e')"
  then have "findElement_array page pre = Inr None"
    by (simp add: findElement_array_no_match)
  with h show "findElement page (Some sels') = Inr (Some e')"
    by (simp add: findElement_concat findElement_array_append)
qed

theorem findElement_first_match_wins_witness:
  "concat [[''#submit''], [''button'']] = ''#submit'' # [''button''] \<and>
   querySelectorAll example_page ''#submit'' = Some [7] \<and>
   findElement example_page (Some [[''#submit''], [''button'']]) = Inr (Some 7) \<and>
   concat [[''div['', ''p''], [], [''button'', ''#submit'']] = [''div['', ''p''] @ ''button'' # [''#submit''] \<and>
   list_all (no_match example_page) [''div['', ''p''] \<and>
   querySelector example_page ''button'' = Inr (Some 3) \<and>
   findElement example_page (Some [[''div['', ''p''], [], [''button'', ''#submit'']]) = Inr (Some 3)"
  using findElement_first_match_wins [of "[[''#submit''], [''button'']]" "''#submit''" "[''button'']"
      example_page 7 "[[''div['', ''p''], [], [''button'', ''#submit'']]" "[''div['', ''p'']" "''button''"
      "[''#submit'']" 3]
  by (simp add: example_page_def no_match_def querySelector_def)

text \<open>
  Claim C1 as stated fails: on a page where \<open>#submit\<close> matches element 7 alone, the
  result for the single candidate \<open>#submit\<close> is element 7 without any confidence,
  not element 7 with confidence 1.0.
\<close>

theorem locate_confidence_counterexample:
  "querySelectorAll example_page ''#submit'' = Some [7] \<and>
   locate example_page (Some [[''#submit'']]) = Inr (Located 7 None) \<and>
   locate example_page (Some [[''#submit'']]) \<noteq> Inr (Located 7 (Some 1))"
  by (simp add: locate_def findElement_def querySelector_def example_page_def)

section \<open>Properties of the step handlers\<close>

lemma findElement_submit:
  "findElement example_page (Some [[''#submit'']]) = Inr (Some 7)"
  by (simp add: findElement_def querySelector_def example_page_def)

text \<open>
  Claim C8, as the code has it. A step recorded from an input or change event is a step
  of type \<open>change\<close>. When its element is located, it carries a value and the
  element's value setter accepts that value (every element does, except a file input
  given a non-empty value), executing the step arms a timer whose callback sets the
  element's value to the recorded value, then dispatches an \<open>input\<close> event, then a
  \<open>change\<close> event, and nothing else.
\<close>

theorem executeChange_sets_value_then_events:
  assumes "step_type s = Change"
    and "findElement page (map_option selectors (target s)) = Inr (Some el)"
    and "step_value s = Some v"
    and "\<not> value_setter_throws page' el v"
  shows "executeStep page (Some s) =
           (ConsoleLogStep ''[Zordon Player] Executing step:'' (Some s) #
            highlightElement page el @ [SetTimeout (Dom (ChangeDispatch el s)) 200], None) \<and>
         run_callback page' (ChangeDispatch el s) =
           ([SetValue el v, DispatchEvent el ''input'', DispatchEvent el ''change''], None)"
proof -
  from assms(3) have v: "or_string (step_value s) [] = v"
    by (simp add: or_string_def)
  from assms(1,2,3) have sync: "executeStep page (Some s) =
           (ConsoleLogStep ''[Zordon Player] Executing step:'' (Some s) #
            highlightElement page el @ [SetTimeout (Dom (ChangeDispatch el s)) 200], None)"
    by (simp add: executeStep_def executeStep_try_def executeChange_def)
  from assms(4) v have later: "run_callback page' (ChangeDispatch el s) =
           ([SetValue el v, DispatchEvent el ''input'', DispatchEvent el ''change''], None)"
    by simp
  from sync later show ?thesis by (rule conjI)
qed

theorem executeChange_sets_value_then_events_witness:
  "step_type change_step = Change \<and>
   findElement example_page (map_option selectors (target change_step)) = Inr (Some 7) \<and>
   step_value change_step = Some ''hello'' \<and>
   \<not> value_setter_throws example_page 7 ''hello'' \<and>
   executeStep example_page (Some change_step) =
     (ConsoleLogStep ''[Zordon Player] Executing step:'' (Some change_step) #
      highlightElement example_page 7 @ [SetTimeout (Dom (ChangeDispatch 7 change_step)) 200], None) \<and>
   run_callback example_page (ChangeDispatch 7 change_step) =
     ([SetValue 7 ''hello'', DispatchEvent 7 ''input'', DispatchEvent 7 ''change''], None)"
proof -
  have h1: "step_type change_step = Change"
    by (simp add: change_step_def)
  have h2: "findElement example_page (map_option selectors (target change_step)) = Inr (Some 7)"
    by (simp add: change_step_def findElement_def querySelector_def example_page_def)
  have h3: "step_value change_step = Some ''hello''"
    by (simp add: change_step_def)
  have h4: "\<not> value_setter_throws example_page 7 ''hello''"
    by (simp add: value_setter_throws_def example_page_def)
  from executeChange_sets_value_then_events [OF h1 h2 h3 h4] h1 h2 h3 h4
  show ?thesis by simp
qed

text \<open>
  Claim C8 as stated fails. The change step recorded on a file input carries the
  non-empty value the input reported; its element is located, but when the timer fires
  the assignment to \<open>value\<close> throws: no value is set and no event is dispatched.
\<close>

theorem executeChange_file_input_counterexample:
  "step_type upload_step = Change \<and>
   findElement example_page (map_option selectors (target upload_step)) = Inr (Some 11) \<and>
   step_value upload_step =
     Some (''C:'' @ [CHR 0x5C] @ ''fakepath'' @ [CHR 0x5C] @ ''cv.pdf'') \<and>
   run_callback example_page (ChangeDispatch 11 upload_step) = ([], Some InvalidStateError) \<and>
   run_callback example_page (ChangeDispatch 11 upload_step) \<noteq>
     ([SetValue 11 (''C:'' @ [CHR 0x5C] @ ''fakepath'' @ [CHR 0x5C] @ ''cv.pdf''),
       DispatchEvent 11 ''input'', DispatchEvent 11 ''change''], None)"
proof -
  have found: "findElement example_page (map_option selectors (target upload_step)) = Inr (Some 11)"
    by (simp add: upload_step_def findElement_def querySelector_def example_page_def)
  have rest: "step_type upload_step = Change \<and>
   step_value upload_step =
     Some (''C:'' @ [CHR 0x5C] @ ''fakepath'' @ [CHR 0x5C] @ ''cv.pdf'') \<and>
   run_callback example_page (ChangeDispatch 11 upload_step) = ([], Some InvalidStateError)"
    by (simp add: upload_step_def value_setter_throws_def or_string_def example_page_def)
  from found rest show ?thesis by (simp del: run_callback.simps)
qed

text \<open>
  Claim C4, as the code has it. For a click step with a located element and recorded
  non-zero offsets, the click event is dispatched at the top-left corner of the
  element's box as it is when the timer fires, plus the recorded pixel offset as it was
  recorded: the offset is not scaled to the size of the box.
\<close>

theorem executeClick_recorded_pixel_offset:
  assumes "step_type s = Click"
    and "findElement page (map_option selectors (target s)) = Inr (Some el)"
    and "offsetX s = Some ox" and "ox \<noteq> 0"
    and "offsetY s = Some oy" and "oy \<noteq> 0"
  shows "executeStep page (Some s) =
           (ConsoleLogStep ''[Zordon Player] Executing step:'' (Some s) #
            highlightElement page el @ [SetTimeout (Dom (ClickDispatch el s)) 200], None) \<and>
         run_callback page' (ClickDispatch el s) =
           ([DispatchMouseEvent el ''click''
               (rect_left (getBoundingClientRect page' el) + ox)
               (rect_top (getBoundingClientRect page' el) + oy)
               (button_number (button s))], None)"
  using assms
  by (simp add: executeStep_def executeStep_try_def executeClick_def or_number_def Let_def)

theorem executeClick_recorded_pixel_offset_witness:
  "step_type click_step = Click \<and>
   findElement example_page (map_option selectors (target click_step)) = Inr (Some 7) \<and>
   offsetX click_step = Some 30 \<and> (30::real) \<noteq> 0 \<and>
   offsetY click_step = Some 15 \<and> (15::real) \<noteq> 0 \<and>
   executeStep example_page (Some click_step) =
     (ConsoleLogStep ''[Zordon Player] Executing step:'' (Some click_step) #
      highlightElement example_page 7 @ [SetTimeout (Dom (ClickDispatch 7 click_step)) 200], None) \<and>
   run_callback example_page (ClickDispatch 7 click_step) =
     ([DispatchMouseEvent 7 ''click'' 40 35 0], None)"
proof -
  have h1: "step_type click_step = Click"
    by (simp add: click_step_def)
  have h2: "findElement example_page (map_option selectors (target click_step)) = Inr (Some 7)"
    by (simp add: click_step_def findElement_submit)
  have h3: "offsetX click_step = Some 30" and h5: "offsetY click_step = Some 15"
    by (simp_all add: click_step_def)
  have h4: "(30::real) \<noteq> 0" and h6: "(15::real) \<noteq> 0"
    by simp_all
  have b: "button_number (button click_step) = 0"
    by (simp add: click_step_def button_number_def)
  from executeClick_recorded_pixel_offset [OF h1 h2 h3 h4 h5 h6, of example_page]
    h1 h2 h3 h5 b
  show ?thesis by (simp add: example_page_def)
qed

text \<open>
  Claim C4 as stated fails. A click recorded 30 by 15 pixels into a box of 100 by 50
  is replayed on the same element, whose box is now 200 by 100 at (10, 20): scaled to
  the box the event would be at (70, 50); the player dispatches it at (40, 35).
\<close>

theorem executeClick_scaled_counterexample:
  "findElement example_page (map_option selectors (target click_step)) = Inr (Some 7) \<and>
   rect_width (getBoundingClientRect example_page 7) = 2 * rect_width recorded_rect \<and>
   rect_height (getBoundingClientRect example_page 7) = 2 * rect_height recorded_rect \<and>
   spec_clickPoint recorded_rect (getBoundingClientRect example_page 7) 30 15 = (70, 50) \<and>
   run_callback example_page (ClickDispatch 7 click_step) =
     ([DispatchMouseEvent 7 ''click'' 40 35 0], None) \<and>
   run_callback example_page (ClickDispatch 7 click_step) \<noteq>
     ([DispatchMouseEvent 7 ''click'' 70 50 0], None)"
proof -
  have found: "findElement example_page (map_option selectors (target click_step)) = Inr (Some 7)"
    by (simp add: click_step_def findElement_submit)
  have rest: "rect_width (getBoundingClientRect example_page 7) = 2 * rect_width recorded_rect \<and>
   rect_height (getBoundingClientRect example_page 7) = 2 * rect_height recorded_rect \<and>
   spec_clickPoint recorded_rect (getBoundingClientRect example_page 7) 30 15 = (70, 50) \<and>
   run_callback example_page (ClickDispatch 7 click_step) =
     ([DispatchMouseEvent 7 ''click'' 40 35 0], None) \<and>
   run_callback example_page (ClickDispatch 7 click_step) \<noteq>
     ([DispatchMouseEvent 7 ''click'' 70 50 0], None)"
    by (simp add: click_step_def example_page_def recorded_rect_def
        spec_clickPoint_def or_number_def button_number_def)
  from found rest show ?thesis by (rule conjI)
qed

text \<open>
  Claim C5, as the code has it. Executing a scroll step scrolls the window to its
  current vertical position plus 100 pixels, whatever the step's target and whatever
  was recorded.
\<close>

theorem executeScroll_fixed_window_scroll:
  "step_type s = Scroll \<Longrightarrow>
   executeStep page (Some s) =
     ([ConsoleLogStep ''[Zordon Player] Executing step:'' (Some s),
       WindowScrollTo (scrollY page + 100)], None)"
  by (simp add: executeStep_def executeStep_try_def executeScroll_def)

theorem executeScroll_fixed_window_scroll_witness:
  "step_type scroll_step = Scroll \<and>
   executeStep example_page (Some scroll_step) =
     ([ConsoleLogStep ''[Zordon Player] Executing step:'' (Some scroll_step),
       WindowScrollTo 140], None)"
proof -
  have h: "step_type scroll_step = Scroll"
    by (simp add: scroll_step_def)
  from executeScroll_fixed_window_scroll [OF h, of example_page] h
  show ?thesis by (simp add: example_page_def)
qed

text \<open>
  Claim C5 as stated fails. A scroll step with a target is executed as a scroll of the
  document by 100 pixels: this is neither the recorded delta (say 250) applied to the
  target's scrollable ancestor (say element 3), nor that delta applied to the document.
\<close>

theorem executeScroll_recorded_delta_counterexample:
  "target scroll_step \<noteq> None \<and>
   List.map_filter (scroll_request_of example_page)
     (fst (executeStep example_page (Some scroll_step))) = [ScrollDocumentBy 100] \<and>
   [ScrollDocumentBy 100] \<noteq> [spec_executeScroll (Some 3) 250] \<and>
   [ScrollDocumentBy 100] \<noteq> [spec_executeScroll None 250]"
  by (simp add: scroll_step_def executeStep_def executeStep_try_def executeScroll_def
      List.map_filter_def spec_executeScroll_def example_page_def)

section \<open>Properties of the playback loop\<close>

lemma executeStep_never_throws: "snd (executeStep page st) = None"
  by (simp add: executeStep_def split: prod.splits option.splits)

lemma executed_steps_simps [simp]:
  "executed_steps [] = []"
  "executed_steps (e # es) = logged_step e @ executed_steps es"
  by (simp_all add: executed_steps_def)

lemma next_delays_simps [simp]:
  "next_delays [] = []"
  "next_delays (e # es) = next_delay e @ next_delays es"
  by (simp_all add: next_delays_def)

lemma executed_steps_append [simp]:
  "executed_steps (xs @ ys) = executed_steps xs @ executed_steps ys"
  by (simp add: executed_steps_def)

lemma next_delays_append [simp]:
  "next_delays (xs @ ys) = next_delays xs @ next_delays ys"
  by (simp add: next_delays_def)

lemma executeStep_try_quiet:
  "executed_steps (fst (executeStep_try page st)) = [] \<and>
   next_delays (fst (executeStep_try page st)) = []"
proof (cases st)
  case None
  then show ?thesis
    by (simp add: executeStep_try_def executed_steps_def next_delays_def)
next
  case (Some s)
  then show ?thesis
    by (cases "step_type s")
      (auto simp: executeStep_try_def executed_steps_def next_delays_def
        executeNavigate_def executeClick_def executeChange_def executeKeyPress_def
        executeScroll_def highlightElement_def Let_def
        split: sum.splits option.splits)
qed

lemma executeStep_logs_once:
  "executed_steps (fst (executeStep page st)) = [st] \<and>
   next_delays (fst (executeStep page st)) = []"
proof -
  obtain effs thrown where t: "executeStep_try page st = (effs, thrown)"
    by (cases "executeStep_try page st")
  with executeStep_try_quiet [of page st]
  have q: "executed_steps effs = []" "next_delays effs = []"
    by simp_all
  show ?thesis
    using t q
    by (cases thrown) (simp_all add: executeStep_def executed_steps_def next_delays_def)
qed

lemma playback_done:
  assumes "\<not> isPlaying p \<or> length (steps p) \<le> currentStepIndex p"
  shows "playback pages p =
           (case showCompletionMessage (p\<lparr> isPlaying := False \<rparr>) of
              (p', effs) \<Rightarrow> (p', effs, None))"
  using assms
  by (subst playback.simps)
    (auto simp: executeNextStep_def showCompletionMessage_def armed_next_def
      split: option.splits)

lemma playback_step:
  assumes "isPlaying p" and "currentStepIndex p < length (steps p)"
  shows "playback pages p =
           (case playback pages
                   (p\<lparr> currentStepIndex := currentStepIndex p + 1,
                      playbackInterval := True \<rparr>) of
              (p'', effs', thrown') \<Rightarrow>
                (p'',
                 fst (executeStep (pages (currentStepIndex p))
                        (steps p ! currentStepIndex p)) @
                 [SetTimeout NextStep (max 500 (1000 / playbackSpeed p))] @ effs',
                 thrown'))"
proof -
  obtain effs where e: "executeStep (pages (currentStepIndex p))
                        (steps p ! currentStepIndex p) = (effs, None)"
    using executeStep_never_throws
      [of "pages (currentStepIndex p)" "steps p ! currentStepIndex p"]
    by (cases "executeStep (pages (currentStepIndex p)) (steps p ! currentStepIndex p)") simp
  show ?thesis
    using assms e
    by (subst playback.simps)
      (simp add: executeNextStep_def armed_next_def split: prod.splits)
qed

lemma playback_run:
  assumes "isPlaying p" and "currentStepIndex p \<le> length (steps p)"
    and "playback pages p = (p', trace, thrown)"
  shows "thrown = None \<and> currentStepIndex p' = length (steps p) \<and> steps p' = steps p \<and>
         \<not> isPlaying p' \<and> playbackSpeed p' = playbackSpeed p \<and>
         executed_steps trace = drop (currentStepIndex p) (steps p) \<and>
         next_delays trace =
           replicate (length (steps p) - currentStepIndex p)
             (max 500 (1000 / playbackSpeed p)) \<and>
         playerContainer p' =
           map_option (\<lambda>c. c\<lparr> display := ''block'', message := ''Playback Complete!'' \<rparr>)
             (playerContainer p)"
  using assms
proof (induction "length (steps p) - currentStepIndex p" arbitrary: p p' trace thrown)
  case 0
  then have "length (steps p) \<le> currentStepIndex p" by simp
  with "0.prems" show ?case
    by (cases "playerContainer p")
      (auto simp: playback_done showCompletionMessage_def executed_steps_def next_delays_def)
next
  case (Suc n)
  let ?i = "currentStepIndex p"
  let ?p1 = "p\<lparr> currentStepIndex := ?i + 1, playbackInterval := True \<rparr>"
  from Suc.hyps(2) have lt: "?i < length (steps p)" by simp
  obtain q effs' thrown' where rest: "playback pages ?p1 = (q, effs', thrown')"
    by (cases "playback pages ?p1")
  have n: "n = length (steps ?p1) - currentStepIndex ?p1"
    using Suc.hyps(2) by simp
  have ih: "thrown' = None \<and> currentStepIndex q = length (steps ?p1) \<and> steps q = steps ?p1 \<and>
         \<not> isPlaying q \<and> playbackSpeed q = playbackSpeed ?p1 \<and>
         executed_steps effs' = drop (currentStepIndex ?p1) (steps ?p1) \<and>
         next_delays effs' =
           replicate (length (steps ?p1) - currentStepIndex ?p1)
             (max 500 (1000 / playbackSpeed ?p1)) \<and>
         playerContainer q =
           map_option (\<lambda>c. c\<lparr> display := ''block'', message := ''Playback Complete!'' \<rparr>)
             (playerContainer ?p1)"
    using Suc.hyps(1) [OF n _ _ rest] Suc.prems(1) lt by simp
  from playback_step [OF Suc.prems(1) lt, of pages] rest Suc.prems(3)
  have res: "p' = q" "thrown = thrown'"
    "trace = fst (executeStep (pages ?i) (steps p ! ?i)) @
       [SetTimeout NextStep (max 500 (1000 / playbackSpeed p))] @ effs'"
    by simp_all
  have d: "drop ?i (steps p) = steps p ! ?i # drop (Suc ?i) (steps p)"
    using lt by (simp add: Cons_nth_drop_Suc)
  have r: "length (steps p) - ?i = Suc (length (steps p) - Suc ?i)"
    using lt by simp
  show ?case
    using ih res d r executeStep_logs_once [of "pages ?i" "steps p ! ?i"]
    by (simp add: executed_steps_def next_delays_def)
qed


lemma cleanup_quiet:
  "executed_steps (snd (cleanup p)) = [] \<and> next_delays (snd (cleanup p)) = []"
  by (simp add: cleanup_def executed_steps_def next_delays_def)

lemma playRecording_nonempty:
  assumes "rec_steps rec = Some ss" and "ss \<noteq> []"
  shows "playRecording pages p0 rec =
     (case playback pages
        (fst (createPlayerUI (fst (cleanup p0)\<lparr> steps := ss, currentStepIndex := 0 \<rparr>) rec)
           \<lparr> isPlaying := True \<rparr>) of
        (p4, effs4, thrown) \<Rightarrow>
          (p4, ConsoleLog ''[Zordon] Starting playback for:'' # snd (cleanup p0) @
               [AppendContainer] @ effs4, thrown))"
  using assms
  by (simp add: playRecording_def startPlayback_def createPlayerUI_def cleanup_def
      split: prod.splits)

text \<open>
  Claim C2 fails on the code. The \<open>try\<close> of \<open>executeStep\<close> is there to capture
  the errors of a step, but the step's events are dispatched later, by a timer callback
  that runs outside of it. For the change step recorded on a file input, \<open>executeStep\<close>
  finds the element, arms the timer and returns without logging an error; when the
  timer fires, the assignment to \<open>value\<close> throws an InvalidStateError that leaves the
  callback: the error of the step is not captured.
\<close>

theorem dispatch_error_not_captured:
  "step_type upload_step = Change \<and>
   findElement example_page (map_option selectors (target upload_step)) = Inr (Some 11) \<and>
   executeStep example_page (Some upload_step) =
     (ConsoleLogStep ''[Zordon Player] Executing step:'' (Some upload_step) #
      highlightElement example_page 11 @
      [SetTimeout (Dom (ChangeDispatch 11 upload_step)) 200], None) \<and>
   ConsoleError ''[Zordon Player] Error executing step:'' \<notin>
     set (fst (executeStep example_page (Some upload_step))) \<and>
   run_callback example_page (ChangeDispatch 11 upload_step) = ([], Some InvalidStateError)"
  by code_simp

text \<open>
  The same replay run to its end: the exception is the one uncaught exception of the
  run, and the trace holds no error logged for the step.
\<close>

lemma uncaught_error_in_replay:
  "fire (\<lambda>t. example_page) after_upload_replay = None \<and>
   w_uncaught after_upload_replay = [InvalidStateError] \<and>
   ConsoleError ''[Zordon Player] Error executing step:'' \<notin> set (w_trace after_upload_replay) \<and>
   executed_steps (w_trace after_upload_replay) = [Some upload_step]"
  by code_simp

text \<open>
  A second defect against the same claim. The timer that hides the completion overlay
  three seconds after a replay is not cancelled when another replay starts. Here it
  fires at time 4000, between the second and the third step of the second replay, and
  its \<open>cleanup\<close> cancels the pending \<open>NextStep\<close> timer and resets the player: two of
  the four steps are executed, the cursor is back at 0 and the replay never completes.
\<close>

lemma stale_auto_hide_cuts_replay:
  "w_timers after_first_replay = [(4000, AutoHide)] \<and>
   w_clock after_first_replay = 1000 \<and>
   w_timers second_replay_started = [(4000, AutoHide), (3500, NextStep)] \<and>
   isPlaying (w_player second_replay_started) \<and>
   length (steps (w_player second_replay_started)) = 4 \<and>
   fire (\<lambda>t. example_page) after_second_replay = None \<and>
   w_clock after_second_replay = 4000 \<and>
   w_player after_second_replay = new_player \<and>
   executed_steps (drop (length (w_trace after_first_replay)) (w_trace after_second_replay)) =
     [Some scroll_step, Some scroll_step]"
  by code_simp

text \<open>
  Claim C3, as the code has it. The delay before the next step does not depend on the
  steps or on when they were recorded: every call of \<open>executeNextStep\<close> that
  executes a step arms the timer of the next call with
  \<open>max 500 (1000 / playbackSpeed)\<close> milliseconds, which is never below 500. The
  player never assigns \<open>playbackSpeed\<close>, which starts at 1, so every delay of a
  playback is 1000 milliseconds.
\<close>

theorem inter_step_delay_fixed:
  "500 \<le> max 500 (1000 / (speed::real)) \<and>
   playbackSpeed new_player = 1 \<and>
   (isPlaying p \<and> currentStepIndex p < length (steps p) \<longrightarrow>
      (case executeNextStep page p of
         (p', effs, thrown) \<Rightarrow>
           playbackSpeed p' = playbackSpeed p \<and>
           next_delays effs = [max 500 (1000 / playbackSpeed p)])) \<and>
   (playbackSpeed p0 = 1 \<and> rec_steps rec = Some ss \<longrightarrow>
      (case playRecording pages p0 rec of
         (p1, trace, thrown) \<Rightarrow>
           playbackSpeed p1 = 1 \<and> next_delays trace = replicate (length ss) 1000))"
proof (intro conjI impI)
  show "500 \<le> max 500 (1000 / (speed::real))" by simp
  show "playbackSpeed new_player = 1" by (simp add: new_player_def)
next
  assume h: "isPlaying p \<and> currentStepIndex p < length (steps p)"
  obtain effs where e: "executeStep page (steps p ! currentStepIndex p) = (effs, None)"
    using executeStep_never_throws [of page "steps p ! currentStepIndex p"]
    by (cases "executeStep page (steps p ! currentStepIndex p)") simp
  with executeStep_logs_once [of page "steps p ! currentStepIndex p"]
  have "next_delays effs = []" by simp
  with h e show "case executeNextStep page p of
         (p', effs, thrown) \<Rightarrow>
           playbackSpeed p' = playbackSpeed p \<and>
           next_delays effs = [max 500 (1000 / playbackSpeed p)]"
    by (simp add: executeNextStep_def next_delays_def)
next
  assume h: "playbackSpeed p0 = 1 \<and> rec_steps rec = Some ss"
  show "case playRecording pages p0 rec of
         (p1, trace, thrown) \<Rightarrow>
           playbackSpeed p1 = 1 \<and> next_delays trace = replicate (length ss) 1000"
  proof (cases "ss = []")
    case True
    obtain p1 effs1 where c: "cleanup p0 = (p1, effs1)"
      by (cases "cleanup p0")
    with cleanup_quiet [of p0] have q: "next_delays effs1 = []" by simp
    from c h have sp: "playbackSpeed p1 = 1"
      by (auto simp: cleanup_def)
    from True h c q sp show ?thesis
      by (simp add: playRecording_def)
  next
    case False
    let ?p3 = "fst (createPlayerUI (fst (cleanup p0)\<lparr> steps := ss, currentStepIndex := 0 \<rparr>) rec)
           \<lparr> isPlaying := True \<rparr>"
    obtain p4 effs4 thrown where r: "playback pages ?p3 = (p4, effs4, thrown)"
      by (cases "playback pages ?p3")
    have s: "steps ?p3 = ss" "currentStepIndex ?p3 = 0" "isPlaying ?p3"
      "playbackSpeed ?p3 = 1"
      using h by (simp_all add: createPlayerUI_def cleanup_def)
    then have le: "currentStepIndex ?p3 \<le> length (steps ?p3)" by simp
    from playback_run [OF s(3) le r] s
    have fin: "next_delays effs4 = replicate (length ss) 1000" "playbackSpeed p4 = 1"
      by simp_all
    from h False have pr: "playRecording pages p0 rec =
      (p4, ConsoleLog ''[Zordon] Starting playback for:'' # snd (cleanup p0) @
               [AppendContainer] @ effs4, thrown)"
      using playRecording_nonempty [of rec ss pages p0] r by simp
    show ?thesis
      using pr fin cleanup_quiet [of p0] by (simp add: next_delays_def)
  qed
qed

theorem inter_step_delay_fixed_witness:
  "isPlaying playing_three_steps \<and>
   currentStepIndex playing_three_steps < length (steps playing_three_steps) \<and>
   (case executeNextStep example_page playing_three_steps of
      (p', effs, thrown) \<Rightarrow> next_delays effs = [1000]) \<and>
   playbackSpeed new_player = 1 \<and> rec_steps three_step_recording = Some three_steps \<and>
   (case playRecording (\<lambda>i. example_page) new_player three_step_recording of
      (p1, trace, thrown) \<Rightarrow> next_delays trace = [1000, 1000, 1000])"
proof -
  have h1: "isPlaying playing_three_steps \<and>
      currentStepIndex playing_three_steps < length (steps playing_three_steps)"
    by (simp add: playing_three_steps_def new_player_def three_steps_def)
  have h2: "playbackSpeed new_player = 1 \<and> rec_steps three_step_recording = Some three_steps"
    by (simp add: new_player_def three_step_recording_def)
  have sp: "playbackSpeed playing_three_steps = 1"
    by (simp add: playing_three_steps_def new_player_def)
  have l: "replicate (length three_steps) (1000::real) = [1000, 1000, 1000]"
    by (simp add: three_steps_def)
  from inter_step_delay_fixed
    [where speed = 1 and p = playing_three_steps and page = example_page
      and ?p0.0 = new_player and rec = three_step_recording and ss = three_steps
      and pages = "\<lambda>i. example_page"]
    h1 h2 sp l
  show ?thesis by (auto split: prod.splits)
qed

text \<open>
  Claim C3 as stated fails. Two steps recorded 100 milliseconds apart
  (at 1000 and 1100), replayed at speed 1: the recorded gap divided by the speed is
  100 milliseconds, with or without a cap of five minutes; the player waits 1000.
\<close>

theorem inter_step_delay_counterexample:
  "map timestamp (the (rec_events three_step_recording)) = [1000, 1100] \<and>
   spec_interStepDelay None 1000 1100 1 = 100 \<and>
   spec_interStepDelay (Some 300000) 1000 1100 1 = 100 \<and>
   next_delays (fst (snd (executeNextStep example_page
     (new_player\<lparr> steps := [Some click_step, Some change_step], isPlaying := True \<rparr>)))) =
     [1000] \<and>
   [1000] \<noteq> [spec_interStepDelay None 1000 1100 1] \<and>
   [1000] \<noteq> [spec_interStepDelay (Some 300000) 1000 1100 1]"
  by (simp add: three_step_recording_def spec_interStepDelay_def executeNextStep_def
      new_player_def executeStep_def executeStep_try_def executeClick_def click_step_def
      findElement_def querySelector_def example_page_def highlightElement_def
      next_delays_def or_string_def)

text \<open>
  Claim C9. A recording whose steps are absent or empty is rejected by the player's
  \<open>playRecording\<close> before anything is executed: it reports the error on the console
  and in an alert, executes no step, arms no timer, shows no overlay and leaves the
  player idle. In the background service, a stored recording whose events are absent
  or empty makes \<open>playRecording\<close> throw "Recording has no events" before any
  message reaches the page.
\<close>

theorem empty_recording_rejected_at_start:
  "(rec_steps rec = None \<or> rec_steps rec = Some [] \<longrightarrow>
      (case playRecording pages p rec of
         (p', trace, thrown) \<Rightarrow>
           trace = ConsoleLog ''[Zordon] Starting playback for:'' # snd (cleanup p) @
                   [ConsoleError ''[Zordon] No steps found in recording'',
                    Alert ''This recording has no steps to play back.''] \<and>
           executed_steps trace = [] \<and> next_delays trace = [] \<and> thrown = None \<and>
           p' = fst (cleanup p) \<and> \<not> isPlaying p' \<and> steps p' = [] \<and> currentStepIndex p' = 0 \<and>
           playerContainer p' = None \<and> \<not> playbackInterval p')) \<and>
   (tab \<noteq> 0 \<and> find (\<lambda>r. rec_id r = recordingId) recordings = Some stored \<and>
    (rec_events stored = None \<or> rec_events stored = Some []) \<longrightarrow>
      sw_playRecording recordings sendMessage_ok recordingId (Some tab) =
        Inl (Error ''Recording has no events''))"
proof (intro conjI impI)
  assume "rec_steps rec = None \<or> rec_steps rec = Some []"
  then show "case playRecording pages p rec of
         (p', trace, thrown) \<Rightarrow>
           trace = ConsoleLog ''[Zordon] Starting playback for:'' # snd (cleanup p) @
                   [ConsoleError ''[Zordon] No steps found in recording'',
                    Alert ''This recording has no steps to play back.''] \<and>
           executed_steps trace = [] \<and> next_delays trace = [] \<and> thrown = None \<and>
           p' = fst (cleanup p) \<and> \<not> isPlaying p' \<and> steps p' = [] \<and> currentStepIndex p' = 0 \<and>
           playerContainer p' = None \<and> \<not> playbackInterval p'"
    using cleanup_quiet [of p]
    by (auto simp: playRecording_def cleanup_def)
next
  assume "tab \<noteq> 0 \<and> find (\<lambda>r. rec_id r = recordingId) recordings = Some stored \<and>
    (rec_events stored = None \<or> rec_events stored = Some [])"
  then show "sw_playRecording recordings sendMessage_ok recordingId (Some tab) =
        Inl (Error ''Recording has no events'')"
    by (auto simp: sw_playRecording_def)
qed

theorem empty_recording_rejected_at_start_witness:
  "(rec_steps empty_recording = None \<or> rec_steps empty_recording = Some []) \<and>
   playRecording (\<lambda>i. example_page) new_player empty_recording =
     (new_player,
      [ConsoleLog ''[Zordon] Starting playback for:'',
       ConsoleError ''[Zordon] No steps found in recording'',
       Alert ''This recording has no steps to play back.''], None) \<and>
   (5::nat) \<noteq> 0 \<and>
   find (\<lambda>r. rec_id r = ''rec_1'') [three_step_recording, empty_recording] =
     Some empty_recording \<and>
   (rec_events empty_recording = None \<or> rec_events empty_recording = Some []) \<and>
   sw_playRecording [three_step_recording, empty_recording] (\<lambda>t. True) ''rec_1'' (Some 5) =
     Inl (Error ''Recording has no events'')"
proof -
  have h1: "rec_steps empty_recording = None \<or> rec_steps empty_recording = Some []"
    by (simp add: empty_recording_def)
  have h2: "(5::nat) \<noteq> 0 \<and>
      find (\<lambda>r. rec_id r = ''rec_1'') [three_step_recording, empty_recording] =
        Some empty_recording \<and>
      (rec_events empty_recording = None \<or> rec_events empty_recording = Some [])"
    by (simp add: empty_recording_def three_step_recording_def)
  have c: "cleanup new_player = (new_player, [])"
    by (simp add: cleanup_def new_player_def)
  from empty_recording_rejected_at_start
    [where rec = empty_recording and pages = "\<lambda>i. example_page" and p = new_player
      and tab = 5 and recordingId = "''rec_1''"
      and recordings = "[three_step_recording, empty_recording]"
      and stored = empty_recording and sendMessage_ok = "\<lambda>t. True"]
    h1 h2 c
  show ?thesis by (auto split: prod.splits)
qed

section \<open>Properties of the selector generator\<close>

lemma generateSelectors_unfold:
  "generateSelectors element =
     (let found = option_list (strategy_id element) @ option_list (strategy_class element) @
                  option_list (strategy_path element) @ option_list (strategy_attrs element)
      in if found = [] then [[toLowerCase (tagName element)]] else found)"
  by (auto simp: generateSelectors_def strategies_def option_list_def Let_def
      split: option.splits)

lemma strategy_results_nonempty:
  "(strategy_id element = Some c \<longrightarrow> c \<noteq> []) \<and>
   (strategy_class element = Some c \<longrightarrow> c \<noteq> []) \<and>
   (strategy_path element = Some c \<longrightarrow> c \<noteq> []) \<and>
   (strategy_attrs element = Some c \<longrightarrow> c \<noteq> [])"
  by (auto simp: strategy_id_def strategy_class_def strategy_path_def strategy_attrs_def
      Let_def split: if_splits class_name.splits)

text \<open>
  Claim C7. For every element the list \<open>generateSelectors\<close> returns is not empty, and
  none of its candidates is an empty array: when no strategy produced a candidate, the
  lower-cased tag name alone is the result.
\<close>

theorem generateSelectors_never_empty:
  "generateSelectors element \<noteq> [] \<and>
   (\<forall>c \<in> set (generateSelectors element). c \<noteq> []) \<and>
   (strategy_id element = None \<and> strategy_class element = None \<and>
    strategy_path element = None \<and> strategy_attrs element = None
      \<longrightarrow> generateSelectors element = [[toLowerCase (tagName element)]])"
proof (intro conjI impI ballI)
  show "generateSelectors element \<noteq> []"
    by (simp add: generateSelectors_unfold Let_def)
next
  fix c
  assume "c \<in> set (generateSelectors element)"
  then show "c \<noteq> []"
    using strategy_results_nonempty [of element c]
    by (auto simp: generateSelectors_unfold Let_def option_list_def
        split: if_splits option.splits)
next
  assume "strategy_id element = None \<and> strategy_class element = None \<and>
    strategy_path element = None \<and> strategy_attrs element = None"
  then show "generateSelectors element = [[toLowerCase (tagName element)]]"
    by (simp add: generateSelectors_unfold option_list_def)
qed

theorem generateSelectors_never_empty_witness:
  "generateSelectors body_element \<noteq> [] \<and>
   [''body''] \<in> set (generateSelectors body_element) \<and> [''body''] \<noteq> ([] :: string list) \<and>
   strategy_id body_element = None \<and> strategy_class body_element = None \<and>
   strategy_path body_element = None \<and> strategy_attrs body_element = None \<and>
   generateSelectors body_element = [[''body'']]"
proof -
  have h: "strategy_id body_element = None \<and> strategy_class body_element = None \<and>
    strategy_path body_element = None \<and> strategy_attrs body_element = None"
    by (simp add: body_element_def strategy_id_def strategy_class_def strategy_path_def
        strategy_attrs_def attr_selector_def element_attribute_def)
  have t: "toLowerCase (tagName body_element) = ''body''"
    by code_simp
  from generateSelectors_never_empty [of body_element] h t
  show ?thesis by simp
qed

text \<open>
  Claim C6, as the code has it. The candidates come in the order: the id selector, the
  class selector (tag name and classes), the ancestor path, the attribute selector (tag
  name with \<open>data-testid\<close>, \<open>name\<close>, \<open>type\<close>), each when it exists; the bare tag
  name is the result only when none of them exists. With a non-empty id the id selector
  is the first candidate.
\<close>

theorem generateSelectors_order:
  "generateSelectors element =
     (if strategy_id element = None \<and> strategy_class element = None \<and>
         strategy_path element = None \<and> strategy_attrs element = None
      then [[toLowerCase (tagName element)]]
      else option_list (strategy_id element) @ option_list (strategy_class element) @
           option_list (strategy_path element) @ option_list (strategy_attrs element)) \<and>
   (element_id element \<noteq> [] \<longrightarrow>
      hd (generateSelectors element) = [''#'' @ element_id element])"
  by (auto simp: generateSelectors_unfold Let_def option_list_def strategy_id_def
      split: option.splits)

theorem generateSelectors_order_witness:
  "element_id submit_button \<noteq> [] \<and>
   hd (generateSelectors submit_button) = [''#submit''] \<and>
   generateSelectors submit_button =
     [[''#submit''], [''button.btn.primary''], [''#submit''],
      [''button[type='' @ [CHR 0x22] @ ''submit'' @ [CHR 0x22] @ '']'']]"
proof -
  have h: "element_id submit_button \<noteq> []"
    by (simp add: submit_button_def)
  have i: "element_id submit_button = ''submit''"
    by (simp add: submit_button_def)
  have v: "generateSelectors submit_button =
     [[''#submit''], [''button.btn.primary''], [''#submit''],
      [''button[type='' @ [CHR 0x22] @ ''submit'' @ [CHR 0x22] @ '']'']]"
    by code_simp
  from generateSelectors_order [of submit_button]
  have "element_id submit_button \<noteq> [] \<longrightarrow>
      hd (generateSelectors submit_button) = [''#'' @ element_id submit_button]"
    by (rule conjunct2)
  with h have "hd (generateSelectors submit_button) = [''#'' @ element_id submit_button]"
    by blast
  with i have "hd (generateSelectors submit_button) = [''#submit'']"
    by simp
  with h v show ?thesis by (intro conjI)
qed

text \<open>
  Claim C6 as stated fails. For \<open><input name="q">\<close> directly in the body the
  generator emits the ancestor path before the attribute selector and no bare tag name
  after them; the claimed order puts the attribute selector first and the bare tag
  name last.
\<close>

theorem generateSelectors_order_counterexample:
  "generateSelectors search_input =
     [[''input''], [''input[name='' @ [CHR 0x22] @ ''q'' @ [CHR 0x22] @ '']'']] \<and>
   spec_order_generateSelectors search_input =
     [[''input[name='' @ [CHR 0x22] @ ''q'' @ [CHR 0x22] @ '']''], [''input''], [''input'']] \<and>
   generateSelectors search_input \<noteq> spec_order_generateSelectors search_input"
proof -
  have a: "generateSelectors search_input =
     [[''input''], [''input[name='' @ [CHR 0x22] @ ''q'' @ [CHR 0x22] @ '']'']]"
    by code_simp
  have b: "spec_order_generateSelectors search_input =
     [[''input[name='' @ [CHR 0x22] @ ''q'' @ [CHR 0x22] @ '']''], [''input''], [''input'']]"
    by code_simp
  from a b show ?thesis by simp
qed

end
